theory Spec2Isabelle
  imports Complex_Main "HOL-Library.Log_Nat"
begin

section \<open>Betting-round state machine (game.py, class PokerSimulator)\<close>

text \<open>
  Python exceptions that the modelled code can raise: a missing dictionary key, an index
  out of range, and the explicit \<open>ValueError\<close> of \<open>player_action\<close> and of
  \<open>list.index\<close>.
\<close>

datatype error = KeyError | IndexError | ValueError

text \<open>
  The fields of \<open>PokerSimulator\<close> that the betting code reads and writes. Players are
  the non-negative integers used as dictionary keys. Chip amounts are exact integers here
  (the constructor's defaults are integers); \<open>verify_bet\<close> on floating-point amounts,
  where every subtraction and addition is rounded, is modelled separately below as
  \<open>verify_bet_float\<close>. A decision is \<open>None\<close> (undecided) or the action string
  that \<open>player_action\<close> stored.
\<close>

record game =
  n_players :: int
  small_blind :: int
  big_blind :: int
  last_bet :: int
  player_money :: "nat \<rightharpoonup> int"
  player_bets :: "nat \<rightharpoonup> int"
  decision_holder :: "nat \<rightharpoonup> string option"
  order_of_play :: "nat list"

text \<open>
  \<open>verify_bet\<close>: an amount above the stack is clamped to the stack (result
  \<open>False\<close>); the clamped amount is added to the player's bet and \<open>last_bet\<close> is
  raised to the player's bet when that is larger.
\<close>

definition verify_bet :: "game \<Rightarrow> nat \<Rightarrow> int \<Rightarrow> error + (game \<times> bool)" where
  "verify_bet g player amount =
     (case player_money g player of
        None \<Rightarrow> Inl KeyError
      | Some m \<Rightarrow>
          (let amount' = (if amount > m then m else amount);
               m' = (if amount > m then 0 else m - amount);
               valid = \<not> (amount > m)
           in case player_bets g player of
                None \<Rightarrow> Inl KeyError
              | Some b \<Rightarrow>
                  (let b' = b + amount'
                   in Inr (g\<lparr>player_money := (player_money g)(player \<mapsto> m'),
                              player_bets := (player_bets g)(player \<mapsto> b'),
                              last_bet := (if b' > last_bet g then b' else last_bet g)\<rparr>,
                           valid))))"

text \<open>
  \<open>fold\<close>: the blind seats are found by indexing \<open>order_of_play\<close> with the player
  number itself; an unpaid blind is forced through \<open>verify_bet\<close>; then
  \<open>n_players\<close> drops by one. The closing \<open>print\<close> reads the player's stack.
\<close>

definition fold_player :: "game \<Rightarrow> nat \<Rightarrow> error + game" where
  "fold_player g player =
     (if player \<ge> length (order_of_play g) then Inl IndexError
      else
        (let seat = int (order_of_play g ! player);
             after_blind =
               (if seat = n_players g - 2 then
                  (case player_bets g player of
                     None \<Rightarrow> Inl KeyError
                   | Some b \<Rightarrow>
                       if b < small_blind g then
                         map_sum id fst (verify_bet g player (small_blind g - b))
                       else if seat = n_players g - 1 then
                         (if b < big_blind g then
                            map_sum id fst (verify_bet g player (big_blind g - b))
                          else Inr g)
                       else Inr g)
                else if seat = n_players g - 1 then
                  (case player_bets g player of
                     None \<Rightarrow> Inl KeyError
                   | Some b \<Rightarrow>
                       if b < big_blind g then
                         map_sum id fst (verify_bet g player (big_blind g - b))
                       else Inr g)
                else Inr g)
         in case after_blind of
              Inl e \<Rightarrow> Inl e
            | Inr g1 \<Rightarrow>
                (case player_money g1 player of
                   None \<Rightarrow> Inl KeyError
                 | Some _ \<Rightarrow> Inr (g1\<lparr>n_players := n_players g1 - 1\<rparr>))))"

text \<open>
  \<open>check\<close>: when the player's bet does not exceed \<open>last_bet\<close>, the difference goes
  through \<open>verify_bet\<close>; its result only selects the printed word. The second
  component is that printed word.
\<close>

definition check :: "game \<Rightarrow> nat \<Rightarrow> error + (game \<times> string)" where
  "check g player =
     (case player_bets g player of
        None \<Rightarrow> Inl KeyError
      | Some b \<Rightarrow>
          if b \<le> last_bet g then
            (let amount = last_bet g - b;
                 g0 = g\<lparr>last_bet := (if b > last_bet g then b else last_bet g)\<rparr>
             in case verify_bet g0 player amount of
                  Inl e \<Rightarrow> Inl e
                | Inr (g1, valid) \<Rightarrow>
                    Inr (g1, if valid then ''checks/calls'' else ''all-in''))
          else Inr (g, []))"

text \<open>
  \<open>all_in\<close>: the whole stack, or the big blind when the stack is smaller, goes
  through \<open>verify_bet\<close>.
\<close>

definition all_in :: "game \<Rightarrow> nat \<Rightarrow> error + game" where
  "all_in g player =
     (case player_money g player of
        None \<Rightarrow> Inl KeyError
      | Some m \<Rightarrow>
          (let amount = (if m < big_blind g then big_blind g else m)
           in map_sum id fst (verify_bet g player amount)))"

text \<open>
  \<open>raise_money\<close>: the value drawn from the normal distribution is the parameter
  \<open>sample\<close>; \<open>torch.clamp\<close> with \<open>min = last_bet\<close> and \<open>max = player_money\<close>
  computes \<open>min (max sample last_bet) player_money\<close>.
\<close>

definition raise_money :: "game \<Rightarrow> nat \<Rightarrow> int \<Rightarrow> error + game" where
  "raise_money g player sample =
     (case player_money g player of
        None \<Rightarrow> Inl KeyError
      | Some m \<Rightarrow>
          if m < big_blind g then all_in g player
          else
            (let amount = min (max sample (last_bet g)) m
             in map_sum id fst (verify_bet g player amount)))"

text \<open>
  \<open>player_action\<close>: dispatch on the action string, then store the string itself as
  the player's decision.
\<close>

definition player_action :: "game \<Rightarrow> nat \<Rightarrow> string \<Rightarrow> int \<Rightarrow> error + game" where
  "player_action g player action sample =
     (let r =
        (if action = ''fold'' then fold_player g player
         else if action = ''check'' then map_sum id fst (check g player)
         else if action = ''raise'' then raise_money g player sample
         else if action = ''all-in'' then all_in g player
         else Inl ValueError)
      in case r of
           Inl e \<Rightarrow> Inl e
         | Inr g1 \<Rightarrow>
             Inr (g1\<lparr>decision_holder := (decision_holder g1)(player \<mapsto> Some action)\<rparr>))"

text \<open>\<open>list.index\<close>: position of the first occurrence, \<open>ValueError\<close> when absent.\<close>

fun index_of :: "nat list \<Rightarrow> nat \<Rightarrow> error + nat" where
  "index_of [] x = Inl ValueError"
| "index_of (y # ys) x =
     (if y = x then Inr 0 else map_sum id Suc (index_of ys x))"

text \<open>
  The loop of \<open>get_players_in_round\<close> over the players before the acting one: a
  decision other than \<open>'fold'\<close> and \<open>'all-in'\<close> is set back to \<open>None\<close>.
\<close>

fun reopen :: "(nat \<rightharpoonup> string option) \<Rightarrow> nat list \<Rightarrow> error + (nat \<rightharpoonup> string option)" where
  "reopen d [] = Inr d"
| "reopen d (q # qs) =
     (case d q of
        None \<Rightarrow> Inl KeyError
      | Some dec \<Rightarrow>
          reopen (if dec \<noteq> Some ''fold'' \<and> dec \<noteq> Some ''all-in'' then d(q \<mapsto> None) else d) qs)"

definition get_players_in_round :: "game \<Rightarrow> nat \<Rightarrow> string \<Rightarrow> error + game" where
  "get_players_in_round g player action =
     (if action = ''raise'' \<or> action = ''all-in'' then
        (case index_of (order_of_play g) player of
           Inl e \<Rightarrow> Inl e
         | Inr idx \<Rightarrow>
             (case reopen (decision_holder g) (take idx (order_of_play g)) of
                Inl e \<Rightarrow> Inl e
              | Inr d \<Rightarrow> Inr (g\<lparr>decision_holder := d\<rparr>)))
      else Inr g)"



text \<open>\<open>distribute_pot\<close>: prints the winners and does nothing else (\<open>pass\<close>).\<close>

definition distribute_pot :: "game \<Rightarrow> nat list \<Rightarrow> game" where
  "distribute_pot g winners = g"

text \<open>
  One turn of the betting loop in \<open>player_moves\<close>: \<open>player_action\<close> followed by
  \<open>get_players_in_round\<close> for the same player and action.
\<close>

definition player_turn :: "game \<Rightarrow> nat \<Rightarrow> string \<Rightarrow> int \<Rightarrow> error + game" where
  "player_turn g player action sample =
     (case player_action g player action sample of
        Inl e \<Rightarrow> Inl e
      | Inr g1 \<Rightarrow> get_players_in_round g1 player action)"

text \<open>Reading one dictionary entry of a result; a missing key is a \<open>KeyError\<close>.\<close>

definition decision_after :: "error + game \<Rightarrow> nat \<Rightarrow> error + string option" where
  "decision_after r player =
     (case r of
        Inl e \<Rightarrow> Inl e
      | Inr g \<Rightarrow> (case decision_holder g player of None \<Rightarrow> Inl KeyError | Some d \<Rightarrow> Inr d))"

definition money_after :: "error + game \<Rightarrow> nat \<Rightarrow> error + int" where
  "money_after r player =
     (case r of
        Inl e \<Rightarrow> Inl e
      | Inr g \<Rightarrow> (case player_money g player of None \<Rightarrow> Inl KeyError | Some m \<Rightarrow> Inr m))"

definition bets_after :: "error + game \<Rightarrow> nat \<Rightarrow> error + int" where
  "bets_after r player =
     (case r of
        Inl e \<Rightarrow> Inl e
      | Inr g \<Rightarrow> (case player_bets g player of None \<Rightarrow> Inl KeyError | Some b \<Rightarrow> Inr b))"

text \<open>A table of four seats used in the examples below.\<close>

definition table4 :: game where
  "table4 = \<lparr>n_players = 4, small_blind = 10, big_blind = 20, last_bet = 20,
             player_money = [0 \<mapsto> 980, 1 \<mapsto> 980, 2 \<mapsto> 1000, 3 \<mapsto> 1000],
             player_bets = [0 \<mapsto> 20, 1 \<mapsto> 20, 2 \<mapsto> 0, 3 \<mapsto> 0],
             decision_holder = [0 \<mapsto> Some ''check'', 1 \<mapsto> Some ''check'', 2 \<mapsto> None, 3 \<mapsto> None],
             order_of_play = [0, 1, 2, 3]\<rparr>"

text \<open>A short-stacked caller: player 1 holds 50 chips and faces a bet of 300.\<close>

definition short_stack :: game where
  "short_stack = \<lparr>n_players = 3, small_blind = 10, big_blind = 20, last_bet = 300,
                  player_money = [0 \<mapsto> 700, 1 \<mapsto> 50, 2 \<mapsto> 1000],
                  player_bets = [0 \<mapsto> 300, 1 \<mapsto> 20, 2 \<mapsto> 0],
                  decision_holder = [0 \<mapsto> Some ''raise'', 1 \<mapsto> None, 2 \<mapsto> None],
                  order_of_play = [0, 1, 2]\<rparr>"


section \<open>Hand evaluator (rules.py, class PokerRank; mapper.py)\<close>

text \<open>A card is the tuple \<open>(suit, rank)\<close> built by \<open>get_card\<close>.\<close>

type_synonym card = "nat \<times> nat"

text \<open>Sequencing of computations that may raise.\<close>

fun bind_err :: "error + 'a \<Rightarrow> ('a \<Rightarrow> error + 'b) \<Rightarrow> error + 'b" where
  "bind_err (Inl e) f = Inl e"
| "bind_err (Inr x) f = f x"

fun map_err :: "('a \<Rightarrow> error + 'b) \<Rightarrow> 'a list \<Rightarrow> error + 'b list" where
  "map_err f [] = Inr []"
| "map_err f (x # xs) = bind_err (f x) (\<lambda>y. bind_err (map_err f xs) (\<lambda>ys. Inr (y # ys)))"

text \<open>
  \<open>Mapper.card_string\<close>: \<open>self.ranks[card[1]] + self.suits[card[0]]\<close>; an index
  outside either list raises \<open>IndexError\<close>. The suit glyphs are their UTF-8 bytes.
\<close>

definition mapper_ranks :: "string list" where
  "mapper_ranks = [''2'', ''3'', ''4'', ''5'', ''6''] @
                  [''7'', ''8'', ''9'', ''10'', ''J'', ''Q'', ''K'', ''A'']"

definition mapper_suits :: "string list" where
  "mapper_suits = [[CHR 0xE2, CHR 0x99, CHR 0xA3], [CHR 0xE2, CHR 0x99, CHR 0xA6],
                   [CHR 0xE2, CHR 0x99, CHR 0xA5], [CHR 0xE2, CHR 0x99, CHR 0xA0]]"

definition card_string :: "card \<Rightarrow> error + string" where
  "card_string c =
     (if snd c < length mapper_ranks then
        (if fst c < length mapper_suits then Inr (mapper_ranks ! snd c @ mapper_suits ! fst c)
         else Inl IndexError)
      else Inl IndexError)"

text \<open>
  \<open>list.sort(key=lambda card: card[1], reverse=True)\<close>: a stable sort by descending
  rank (cards of equal rank keep their order).
\<close>

definition sort_by_rank_desc :: "card list \<Rightarrow> card list" where
  "sort_by_rank_desc cards = rev (sort_key snd (rev cards))"

text \<open>
  The numpy functions used by the evaluator: \<open>np.bincount\<close> (occurrences of each value
  from 0 to the maximum), \<open>np.argmax\<close> (index of the first maximum, \<open>ValueError\<close> on
  an empty array), \<open>np.unique\<close> (sorted distinct values, with their counts).
\<close>

definition bincount :: "nat list \<Rightarrow> nat list" where
  "bincount xs = (if xs = [] then [] else map (count_list xs) [0..<Suc (foldr max xs 0)])"

fun first_index :: "('a \<Rightarrow> bool) \<Rightarrow> 'a list \<Rightarrow> nat" where
  "first_index P [] = 0"
| "first_index P (x # xs) = (if P x then 0 else Suc (first_index P xs))"

definition argmax :: "nat list \<Rightarrow> error + nat" where
  "argmax xs = (if xs = [] then Inl ValueError
                else Inr (first_index (\<lambda>x. x = foldr max xs 0) xs))"

definition np_unique :: "nat list \<Rightarrow> nat list" where
  "np_unique xs = sort (remdups xs)"

definition unique_counts :: "nat list \<Rightarrow> (nat \<times> nat) list" where
  "unique_counts xs = map (\<lambda>v. (v, count_list xs v)) (np_unique xs)"

text \<open>The values of \<open>arr[np.where(counts == k)]\<close>.\<close>

definition with_count :: "nat \<Rightarrow> nat list \<Rightarrow> nat list" where
  "with_count k xs = map fst (filter (\<lambda>vc. snd vc = k) (unique_counts xs))"

text \<open>\<open>np.any(counts == k)\<close>.\<close>

definition any_count :: "nat \<Rightarrow> nat list \<Rightarrow> bool" where
  "any_count k xs = list_ex (\<lambda>vc. snd vc = k) (unique_counts xs)"

text \<open>\<open>xs[0]\<close> on a list or array.\<close>

definition first_elem :: "'a list \<Rightarrow> error + 'a" where
  "first_elem xs = (case xs of [] \<Rightarrow> Inl IndexError | x # _ \<Rightarrow> Inr x)"

text \<open>
  \<open>get_highest_card\<close>: every card is first rendered by \<open>card_string\<close>, then the
  list is sorted by descending rank and its first element returned.
\<close>

definition get_highest_card :: "card list \<Rightarrow> error + card" where
  "get_highest_card cards =
     bind_err (map_err card_string cards) (\<lambda>_. first_elem (sort_by_rank_desc cards))"

definition get_rank_of_highest_card :: "card list \<Rightarrow> error + nat" where
  "get_rank_of_highest_card cards =
     (let ranks = sort (map snd cards)
      in if ranks = [] then Inl IndexError else Inr (last ranks))"

text \<open>
  \<open>[card for card in cards if card[1] == np.argmax(np.bincount(ranks))]\<close>: the
  condition is evaluated once per card, so an empty \<open>cards\<close> never calls
  \<open>np.argmax\<close>.
\<close>

definition cards_of_top_rank :: "card list \<Rightarrow> nat list \<Rightarrow> error + card list" where
  "cards_of_top_rank cards ranks =
     (if cards = [] then Inr []
      else bind_err (argmax (bincount ranks)) (\<lambda>r. Inr (filter (\<lambda>c. snd c = r) cards)))"

definition is_flush :: "card list \<Rightarrow> error + card list option" where
  "is_flush cards =
     (if length cards < 5 then Inr None
      else
        (let suits = map fst cards
         in if list_ex (\<lambda>n. 5 \<le> n) (bincount suits) then
              bind_err (argmax (bincount suits))
                (\<lambda>s. Inr (Some (take 5 (sort_by_rank_desc (filter (\<lambda>c. fst c = s) cards)))))
            else Inr None))"

text \<open>The inner function \<open>unique_ranks\<close> of \<open>is_straight\<close>.\<close>

fun first_per_rank :: "card list \<Rightarrow> nat list \<Rightarrow> card list" where
  "first_per_rank [] ranks = []"
| "first_per_rank (c # cs) ranks =
     (if snd c \<notin> set ranks then c # first_per_rank cs (ranks @ [snd c])
      else first_per_rank cs ranks)"

definition unique_ranks :: "card list \<Rightarrow> card list" where
  "unique_ranks cards = take 5 (sort_by_rank_desc (first_per_rank cards []))"

text \<open>\<open>np.all(np.diff(w) == 1)\<close>.\<close>

fun all_diff_one :: "nat list \<Rightarrow> bool" where
  "all_diff_one (x # y # ys) = (int y - int x = 1 \<and> all_diff_one (y # ys))"
| "all_diff_one _ = True"

definition straight_window :: "nat list \<Rightarrow> bool" where
  "straight_window w = (all_diff_one w \<and> length w = 5)"

definition is_straight :: "card list \<Rightarrow> error + card list option" where
  "is_straight cards0 =
     (let ranks = np_unique (map snd cards0)
      in if length ranks < 5 then Inr None
         else
           (let cards = filter (\<lambda>c. snd c \<in> set ranks) cards0
            in if straight_window (take 5 (drop 2 ranks)) then
                 Inr (Some (unique_ranks (filter (\<lambda>c. snd c \<in> set (take 5 (drop 2 ranks))) cards)))
               else if straight_window (take 5 (drop 1 ranks)) then
                 Inr (Some (unique_ranks (filter (\<lambda>c. snd c \<in> set (take 5 (drop 1 ranks))) cards)))
               else if straight_window (take 5 ranks) then
                 Inr (Some (unique_ranks (filter (\<lambda>c. snd c \<in> set (take 5 ranks)) cards)))
               else Inr None))"

definition is_royal_flush :: "card list \<Rightarrow> error + card list option" where
  "is_royal_flush hand =
     bind_err (is_flush hand) (\<lambda>fl.
       case fl of
         None \<Rightarrow> Inr None
       | Some flush_cards \<Rightarrow>
           bind_err (is_straight flush_cards) (\<lambda>st.
             case st of
               None \<Rightarrow> Inr None
             | Some straight_cards \<Rightarrow>
                 bind_err (get_rank_of_highest_card hand) (\<lambda>r.
                   if r = 12 then Inr (Some straight_cards) else Inr None)))"

definition is_straight_flush :: "card list \<Rightarrow> error + card list option" where
  "is_straight_flush hand =
     bind_err (is_flush hand) (\<lambda>fl.
       case fl of
         None \<Rightarrow> Inr None
       | Some flush_cards \<Rightarrow>
           bind_err (is_straight flush_cards) (\<lambda>st.
             case st of
               None \<Rightarrow> Inr None
             | Some straight_cards \<Rightarrow> Inr (Some straight_cards)))"

definition is_4_of_a_kind :: "card list \<Rightarrow> error + card list option" where
  "is_4_of_a_kind cards =
     (let ranks = map snd cards
      in if any_count 4 ranks then
           bind_err (cards_of_top_rank cards ranks) (\<lambda>four_of_a_kind_cards.
             let rest = filter (\<lambda>c. c \<notin> set four_of_a_kind_cards) cards
             in bind_err (get_highest_card rest) (\<lambda>highest_card.
                  Inr (Some (four_of_a_kind_cards @ [highest_card]))))
         else Inr None)"

definition is_full_house :: "card list \<Rightarrow> error + card list option" where
  "is_full_house cards =
     (let ranks = map snd cards
      in if any_count 3 ranks \<and> any_count 2 ranks then
           bind_err (cards_of_top_rank cards ranks) (\<lambda>three_of_a_kind_cards.
             let rest = filter (\<lambda>c. c \<notin> set three_of_a_kind_cards) cards
             in bind_err (cards_of_top_rank rest (map snd rest)) (\<lambda>two_of_a_kind_cards.
                  Inr (Some (three_of_a_kind_cards @ two_of_a_kind_cards))))
         else Inr None)"

definition is_3_of_a_kind :: "card list \<Rightarrow> error + card list option" where
  "is_3_of_a_kind cards =
     (let ranks = map snd cards
      in if any_count 3 ranks then
           bind_err (cards_of_top_rank cards ranks) (\<lambda>three_of_a_kind_cards.
             let rest = sort_by_rank_desc (filter (\<lambda>c. c \<notin> set three_of_a_kind_cards) cards)
             in bind_err (get_highest_card (drop 0 rest)) (\<lambda>h0.
                  bind_err (get_highest_card (drop 1 rest)) (\<lambda>h1.
                    Inr (Some (three_of_a_kind_cards @ [h0, h1])))))
         else Inr None)"

definition is_2_pairs :: "card list \<Rightarrow> error + card list option" where
  "is_2_pairs cards =
     (let ranks = map snd cards
      in if length (with_count 2 ranks) = 2 then
           (let pairs = with_count 2 ranks;
                hand = filter (\<lambda>c. snd c \<in> set pairs) cards;
                rest = filter (\<lambda>c. c \<notin> set hand) cards
            in bind_err (get_highest_card rest) (\<lambda>highest_card.
                 Inr (Some (hand @ [highest_card]))))
         else Inr None)"

definition is_1_pair :: "card list \<Rightarrow> error + card list option" where
  "is_1_pair cards =
     (let ranks = map snd cards
      in if any_count 2 ranks then
           bind_err (first_elem (with_count 2 ranks)) (\<lambda>pair.
             let hand = filter (\<lambda>c. snd c = pair) cards;
                 rest = sort_by_rank_desc (filter (\<lambda>c. c \<notin> set hand) cards)
             in if length rest < 3 then Inr (Some hand)
                else
                  bind_err (get_highest_card (drop 0 rest)) (\<lambda>h0.
                    bind_err (get_highest_card (drop 1 rest)) (\<lambda>h1.
                      bind_err (get_highest_card (drop 2 rest)) (\<lambda>h2.
                        Inr (Some (hand @ [h0, h1, h2]))))))
         else Inr None)"

definition is_high_card :: "card list \<Rightarrow> error + card list option" where
  "is_high_card cards = Inr (Some (take 5 (sort_by_rank_desc cards)))"

text \<open>The rank functions, applied to the hand found by the matching test.\<close>

definition get_rank_of_4_of_a_kind :: "card list \<Rightarrow> error + nat" where
  "get_rank_of_4_of_a_kind hand =
     bind_err (first_elem (with_count 4 (map snd hand))) (\<lambda>rank. Inr (91 + rank))"

definition get_rank_of_3_of_a_kind :: "card list \<Rightarrow> error + nat" where
  "get_rank_of_3_of_a_kind hand =
     bind_err (first_elem (with_count 3 (map snd hand))) (\<lambda>rank. Inr (39 + rank))"

definition get_rank_of_2_pairs :: "card list \<Rightarrow> error + nat" where
  "get_rank_of_2_pairs hand =
     (let pairs = with_count 2 (map snd hand)
      in if pairs = [] then Inl ValueError else Inr (26 + foldr max pairs 0))"

definition get_rank_of_1_pair :: "card list \<Rightarrow> error + nat" where
  "get_rank_of_1_pair hand =
     bind_err (first_elem (with_count 2 (map snd hand))) (\<lambda>rank. Inr (13 + rank))"

definition get_rank_full_house :: "card list \<Rightarrow> error + nat" where
  "get_rank_full_house hand =
     bind_err (first_elem (with_count 3 (map snd hand))) (\<lambda>rank. Inr (78 + rank))"

definition get_rank_straight :: "card list \<Rightarrow> error + nat" where
  "get_rank_straight hand =
     (let ranks = sort (map snd hand)
      in if ranks = [] then Inl IndexError else Inr (52 + last ranks))"

definition suited_high_rank :: "card list \<Rightarrow> error + nat" where
  "suited_high_rank hand =
     bind_err (argmax (bincount (map fst hand))) (\<lambda>suit.
       let ranks = sort (map snd (filter (\<lambda>c. fst c = suit) hand))
       in if ranks = [] then Inl IndexError else Inr (last ranks))"

definition get_rank_flush :: "card list \<Rightarrow> error + nat" where
  "get_rank_flush hand = bind_err (suited_high_rank hand) (\<lambda>rank. Inr (65 + rank))"

definition get_rank_straight_flush :: "card list \<Rightarrow> error + nat" where
  "get_rank_straight_flush hand = bind_err (suited_high_rank hand) (\<lambda>rank. Inr (104 + rank))"

definition get_rank_royal_flush :: "card list \<Rightarrow> error + nat" where
  "get_rank_royal_flush hand = Inr 117"

text \<open>
  The categories, named as in the spec; \<open>hand_mapper\<close> prints them as "High Card",
  "1 Pair", "2 Pairs", "3 of a Kind", "Straight", "Flush", "Full House", "4 of a Kind",
  "Straight Flush" and "Royal Flush".
\<close>

datatype hand_category =
  HighCard | OnePair | TwoPair | ThreeOfAKind | Straight | Flush | FullHouse |
  FourOfAKind | StraightFlush | RoyalFlush

text \<open>
  The dictionary \<open>hands\<close> of \<open>rank_hand_of_player\<close> in its insertion order: each test
  with its rank function.
\<close>

definition hands :: "(hand_category \<times> (card list \<Rightarrow> error + card list option) \<times>
                       (card list \<Rightarrow> error + nat)) list" where
  "hands = [(RoyalFlush, is_royal_flush, get_rank_royal_flush),
            (StraightFlush, is_straight_flush, get_rank_straight_flush),
            (FourOfAKind, is_4_of_a_kind, get_rank_of_4_of_a_kind),
            (FullHouse, is_full_house, get_rank_full_house),
            (Flush, is_flush, get_rank_flush),
            (Straight, is_straight, get_rank_straight),
            (ThreeOfAKind, is_3_of_a_kind, get_rank_of_3_of_a_kind),
            (TwoPair, is_2_pairs, get_rank_of_2_pairs),
            (OnePair, is_1_pair, get_rank_of_1_pair),
            (HighCard, is_high_card, get_rank_of_highest_card)]"

text \<open>
  The loop of \<open>rank_hand_of_player\<close>: the first test that succeeds gives the hand, which
  is rendered by \<open>card_string\<close> and ranked. The result is the matched category, the hand
  stored in \<open>player_hands\<close> and the returned rank. When no test succeeds, the cards stay
  as they are and the rank is that of the highest card.
\<close>

fun first_hand :: "(hand_category \<times> (card list \<Rightarrow> error + card list option) \<times>
                    (card list \<Rightarrow> error + nat)) list \<Rightarrow> card list \<Rightarrow>
                   error + (hand_category \<times> card list \<times> nat)" where
  "first_hand [] cards =
     bind_err (get_rank_of_highest_card cards) (\<lambda>r. Inr (HighCard, cards, r))"
| "first_hand ((cat, fn_check, fn_rank) # rest) cards =
     bind_err (fn_check cards) (\<lambda>res.
       case res of
         None \<Rightarrow> first_hand rest cards
       | Some hand \<Rightarrow>
           bind_err (map_err card_string hand) (\<lambda>_.
             bind_err (fn_rank hand) (\<lambda>r. Inr (cat, hand, r))))"

definition rank_hand_of_player :: "card list \<Rightarrow> error + (hand_category \<times> card list \<times> nat)" where
  "rank_hand_of_player cards = first_hand hands cards"


section \<open>Reference classification (spec, sections 3, 4.2 and 8)\<close>











section \<open>Floating-point chip amounts (game.py, verify_bet with amount : float)\<close>

text \<open>
  \<open>verify_bet\<close> declares \<open>amount : float\<close>, and \<open>raise_money\<close> passes it the
  float drawn by torch. A finite Python float is a rational number, and the result of
  \<open>-=\<close> and \<open>+=\<close> on floats is the exact result rounded to the nearest binary64
  value, ties to the even significand. \<open>fl\<close> is that rounding: the value is scaled
  by a power of two to a significand below \<open>2^53\<close> (with the exponent of the subnormal
  range, \<open>-1074\<close>, as the least one), rounded half to even, and scaled back. Infinities
  and NaN are not modelled: chip amounts stay below \<open>2^1024\<close>.
\<close>

text \<open>\<open>2^e\<close> for an integer exponent.\<close>

definition pow2 :: "int \<Rightarrow> rat" where
  "pow2 e = (if 0 \<le> e then 2 ^ nat e else 1 / 2 ^ nat (- e))"

text \<open>Rounding to the nearest integer, ties to the even one.\<close>

definition round_half_even :: "rat \<Rightarrow> int" where
  "round_half_even y =
     (let f = \<lfloor>y\<rfloor>; d = y - of_int f
      in if d < 1 / 2 then f
         else if 1 / 2 < d then f + 1
         else if even f then f else f + 1)"

text \<open>\<open>floor (log2 x)\<close> of a positive rational, from the bit length of an integer part.\<close>

definition floor_log2 :: "rat \<Rightarrow> int" where
  "floor_log2 x =
     (if 1 \<le> x then bitlen \<lfloor>x\<rfloor> - 1
      else (let k = bitlen \<lfloor>1 / x\<rfloor> - 1
            in if 1 / x = pow2 k then - k else - (k + 1)))"

text \<open>The nearest binary64 value of a positive rational, and of any rational.\<close>

definition round_pos :: "rat \<Rightarrow> rat" where
  "round_pos x =
     (let e = max (floor_log2 x - 52) (- 1074)
      in of_int (round_half_even (x / pow2 e)) * pow2 e)"

definition fl :: "rat \<Rightarrow> rat" where
  "fl x = (if x = 0 then 0 else if 0 < x then round_pos x else - round_pos (- x))"


text \<open>
  The fields that \<open>verify_bet\<close> reads and writes, holding floats, and \<open>verify_bet\<close>
  itself with the subtraction and the addition rounded. The clamped branch stores the
  integer 0 and adds the whole stack to the bet.
\<close>

record float_game =
  money_f :: "nat \<rightharpoonup> rat"
  bets_f :: "nat \<rightharpoonup> rat"
  last_bet_f :: rat

definition verify_bet_float :: "float_game \<Rightarrow> nat \<Rightarrow> rat \<Rightarrow> error + (float_game \<times> bool)" where
  "verify_bet_float g player amount =
     (case money_f g player of
        None \<Rightarrow> Inl KeyError
      | Some m \<Rightarrow>
          (let amount' = (if amount > m then m else amount);
               m' = (if amount > m then 0 else fl (m - amount));
               valid = \<not> (amount > m)
           in case bets_f g player of
                None \<Rightarrow> Inl KeyError
              | Some b \<Rightarrow>
                  (let b' = fl (b + amount')
                   in Inr (g\<lparr>money_f := (money_f g)(player \<mapsto> m'),
                              bets_f := (bets_f g)(player \<mapsto> b'),
                              last_bet_f := (if b' > last_bet_f g then b' else last_bet_f g)\<rparr>,
                           valid))))"

text \<open>Reading one dictionary entry of a result.\<close>

definition money_f_after :: "error + (float_game \<times> bool) \<Rightarrow> nat \<Rightarrow> error + rat" where
  "money_f_after r player =
     (case r of
        Inl e \<Rightarrow> Inl e
      | Inr (g, _) \<Rightarrow> (case money_f g player of None \<Rightarrow> Inl KeyError | Some m \<Rightarrow> Inr m))"

definition bets_f_after :: "error + (float_game \<times> bool) \<Rightarrow> nat \<Rightarrow> error + rat" where
  "bets_f_after r player =
     (case r of
        Inl e \<Rightarrow> Inl e
      | Inr (g, _) \<Rightarrow> (case bets_f g player of None \<Rightarrow> Inl KeyError | Some b \<Rightarrow> Inr b))"

text \<open>A player with a stack of 1000 and nothing bet yet.\<close>

definition full_stack :: float_game where
  "full_stack = \<lparr>money_f = [0 \<mapsto> 1000], bets_f = [0 \<mapsto> 0], last_bet_f = 20\<rparr>"

section \<open>Properties of the betting-round state machine\<close>

lemma index_of_Inr:
  "index_of xs x = Inr i \<Longrightarrow> i < length xs \<and> xs ! i = x \<and> x \<notin> set (take i xs)"
proof (induction xs arbitrary: i)
  case Nil
  then show ?case by simp
next
  case (Cons y ys)
  show ?case
  proof (cases "y = x")
    case True
    with Cons.prems show ?thesis by simp
  next
    case False
    with Cons.prems obtain j where j: "index_of ys x = Inr j" "i = Suc j"
      by (cases "index_of ys x") auto
    with Cons.IH[of j] False show ?thesis by auto
  qed
qed

lemma index_of_total: "x \<in> set xs \<Longrightarrow> \<exists>i. index_of xs x = Inr i"
  by (induction xs) auto

lemma reopen_Inr:
  "reopen d qs = Inr d' \<Longrightarrow>
   d' q = (if q \<in> set qs \<and> d q \<noteq> Some (Some ''fold'') \<and> d q \<noteq> Some (Some ''all-in'')
           then Some None else d q)"
proof (induction qs arbitrary: d)
  case Nil
  then show ?case by simp
next
  case (Cons r rs)
  from Cons.prems obtain dec where dec: "d r = Some dec"
    by (cases "d r") auto
  let ?d1 = "if dec \<noteq> Some ''fold'' \<and> dec \<noteq> Some ''all-in'' then d(r \<mapsto> None) else d"
  from Cons.prems dec have "reopen ?d1 rs = Inr d'" by simp
  from Cons.IH[OF this] dec show ?case
    by (auto split: if_splits)
qed

lemma reopen_total: "set qs \<subseteq> dom d \<Longrightarrow> \<exists>d'. reopen d qs = Inr d'"
proof (induction qs arbitrary: d)
  case Nil
  then show ?case by simp
next
  case (Cons r rs)
  then obtain dec where dec: "d r = Some dec" by auto
  let ?d1 = "if dec \<noteq> Some ''fold'' \<and> dec \<noteq> Some ''all-in'' then d(r \<mapsto> None) else d"
  from Cons.prems have "set rs \<subseteq> dom ?d1" by auto
  from Cons.IH[OF this] dec show ?case by simp
qed

lemma verify_bet_total:
  "player_money g p = Some m \<Longrightarrow> player_bets g p = Some b \<Longrightarrow>
   verify_bet g p a =
     Inr (g\<lparr>player_money := (player_money g)(p \<mapsto> (if a > m then 0 else m - a)),
            player_bets := (player_bets g)(p \<mapsto> b + (if a > m then m else a)),
            last_bet := (if b + (if a > m then m else a) > last_bet g
                         then b + (if a > m then m else a) else last_bet g)\<rparr>, \<not> a > m)"
  by (simp add: verify_bet_def Let_def)

lemma all_in_total:
  "player_money g p = Some m \<Longrightarrow> player_bets g p = Some b \<Longrightarrow>
   \<exists>g1. all_in g p = Inr g1 \<and> order_of_play g1 = order_of_play g \<and>
         decision_holder g1 = decision_holder g"
  by (simp add: all_in_def Let_def verify_bet_total)

lemma raise_money_total:
  "player_money g p = Some m \<Longrightarrow> player_bets g p = Some b \<Longrightarrow>
   \<exists>g1. raise_money g p s = Inr g1 \<and> order_of_play g1 = order_of_play g \<and>
         decision_holder g1 = decision_holder g"
  using all_in_total[of g p m b]
  by (auto simp add: raise_money_def Let_def verify_bet_total)


lemma pow2_pos: "0 < pow2 e"
  by (simp add: pow2_def)

lemma round_half_even_nonneg: "0 \<le> y \<Longrightarrow> 0 \<le> round_half_even y"
  by (auto simp: round_half_even_def Let_def)

lemma round_pos_nonneg: "0 \<le> x \<Longrightarrow> 0 \<le> round_pos x"
proof -
  assume x: "0 \<le> x"
  define e where "e = max (floor_log2 x - 52) (- 1074)"
  have "0 \<le> x / pow2 e" using x pow2_pos[of e] by simp
  then have "0 \<le> round_half_even (x / pow2 e)" by (rule round_half_even_nonneg)
  then have "0 \<le> of_int (round_half_even (x / pow2 e)) * pow2 e"
    using pow2_pos[of e] by simp
  then show ?thesis by (simp add: round_pos_def e_def Let_def)
qed

lemma fl_nonneg: "0 \<le> x \<Longrightarrow> 0 \<le> fl x"
  using round_pos_nonneg[of x] by (simp add: fl_def)

lemma round_half_even_of_int: "round_half_even (of_int z) = z"
  by (simp add: round_half_even_def)

lemma pow2_nonpos: "e \<le> 0 \<Longrightarrow> pow2 e = 1 / 2 ^ nat (- e)"
  by (cases "e = 0") (simp_all add: pow2_def)

lemma bitlen_le_53:
  assumes "0 < n" and "n < 2 ^ 53"
  shows "bitlen n \<le> 53"
proof -
  from bitlen_bounds[OF assms(1)] assms(2) have "(2::int) ^ nat (bitlen n - 1) < 2 ^ 53"
    by linarith
  then have "nat (bitlen n - 1) < 53"
    using power_less_imp_less_exp[of "2::int" "nat (bitlen n - 1)" 53] by simp
  then show ?thesis by linarith
qed

lemma round_pos_of_int:
  assumes "0 < n" and "n < 2 ^ 53"
  shows "round_pos (of_int n) = of_int n"
proof -
  from assms(1) have one: "(1::rat) \<le> of_int n" by simp
  then have fl2: "floor_log2 (of_int n) = bitlen n - 1" by (simp add: floor_log2_def)
  define e where "e = max (bitlen n - 1 - 52) (- 1074)"
  have e0: "e \<le> 0" using bitlen_le_53[OF assms] by (simp add: e_def)
  define k where "k = nat (- e)"
  have p: "pow2 e = 1 / 2 ^ k" using pow2_nonpos[OF e0] by (simp add: k_def)
  have "of_int n / pow2 e = (of_int (n * 2 ^ k) :: rat)" by (simp add: p)
  then have "round_half_even (of_int n / pow2 e) = n * 2 ^ k"
    by (simp only: round_half_even_of_int)
  then have "of_int (round_half_even (of_int n / pow2 e)) * pow2 e = (of_int n :: rat)"
    by (simp add: p)
  then show ?thesis by (simp add: round_pos_def fl2 e_def Let_def)
qed

lemma fl_of_int:
  assumes "\<bar>n\<bar> < 2 ^ 53"
  shows "fl (of_int n) = of_int n"
proof -
  consider "n = 0" | "0 < n" | "n < 0" by linarith
  then show ?thesis
  proof cases
    case 1
    then show ?thesis by (simp add: fl_def)
  next
    case 2
    with assms have "n < 2 ^ 53" by simp
    from round_pos_of_int[OF 2 this] 2 show ?thesis by (simp add: fl_def)
  next
    case 3
    with assms have "0 < - n" "- n < 2 ^ 53" by simp_all
    from round_pos_of_int[OF this] 3 show ?thesis by (simp add: fl_def)
  qed
qed

text \<open>
  C10 (as stated, refuted). With a stack of 1000 and the float 0.2 as amount, the stack
  becomes the float nearest to 999.8 and the bet the float 0.2: the stack has lost more
  than the bet has gained.
\<close>

theorem verify_bet_float_loses_chips:
  "money_f_after (verify_bet_float full_stack 0 (3602879701896397 / 18014398509481984)) 0 =
     Inr (4397166901801779 / 4398046511104) \<and>
   bets_f_after (verify_bet_float full_stack 0 (3602879701896397 / 18014398509481984)) 0 =
     Inr (3602879701896397 / 18014398509481984) \<and>
   (3602879701896397 / 18014398509481984 :: rat) - 0 \<noteq> 1000 - 4397166901801779 / 4398046511104"
  by code_simp

text \<open>
  C10 (amended). On floating-point chip amounts \<open>verify_bet\<close> never fails for a
  player with entries; afterwards the stack is not negative and \<open>last_bet\<close> has not
  decreased. An amount above the stack empties the stack and adds the whole stack to the
  bet; any other amount is subtracted from the stack and added to the bet, each result
  rounded to the nearest float. The bet gains exactly what the stack loses whenever these
  results need no rounding, in particular for whole non-negative chip amounts with stack
  plus bet below \<open>2^53\<close>.
\<close>

theorem verify_bet_float_effect:
  assumes "money_f g p = Some m" and "bets_f g p = Some b"
  shows "\<exists>g' valid m' b'.
           verify_bet_float g p amount = Inr (g', valid) \<and>
           money_f g' p = Some m' \<and> bets_f g' p = Some b' \<and>
           0 \<le> m' \<and>
           (m < amount \<longrightarrow> m' = 0 \<and> b' = fl (b + m) \<and> \<not> valid) \<and>
           (amount \<le> m \<longrightarrow> m' = fl (m - amount) \<and> b' = fl (b + amount) \<and> valid) \<and>
           (m < amount \<and> fl (b + m) = b + m \<longrightarrow> b' - b = m - m') \<and>
           (amount \<le> m \<and> fl (m - amount) = m - amount \<and> fl (b + amount) = b + amount \<longrightarrow>
              b' - b = m - m') \<and>
           (\<forall>im ib ia. m = of_int im \<and> b = of_int ib \<and> amount = of_int ia \<and>
                        0 \<le> im \<and> 0 \<le> ib \<and> 0 \<le> ia \<and> im + ib < 2 ^ 53 \<longrightarrow>
                        b' - b = m - m') \<and>
           last_bet_f g \<le> last_bet_f g'"
proof -
  have whole: "(if m < amount then fl (b + m) - b = m
                else fl (b + amount) - b = m - fl (m - amount))"
    if h: "m = of_int im" "b = of_int ib" "amount = of_int ia"
          "0 \<le> im" "0 \<le> ib" "0 \<le> ia" "im + ib < 2 ^ 53" for im ib ia
  proof (cases "m < amount")
    case True
    from h have "\<bar>ib + im\<bar> < 2 ^ 53" by simp
    from fl_of_int[OF this] have "fl (b + m) = b + m" by (simp add: h)
    with True show ?thesis by simp
  next
    case False
    with h have le: "ia \<le> im" by simp
    with h have "\<bar>im - ia\<bar> < 2 ^ 53" "\<bar>ib + ia\<bar> < 2 ^ 53" by simp_all
    from fl_of_int[OF this(1)] fl_of_int[OF this(2)]
    have "fl (m - amount) = m - amount" "fl (b + amount) = b + amount" by (simp_all add: h)
    with False show ?thesis by simp
  qed
  show ?thesis
  proof (cases "m < amount")
    case True
    with assms whole show ?thesis by (auto simp: verify_bet_float_def Let_def)
  next
    case False
    then have "0 \<le> m - amount" by simp
    from fl_nonneg[OF this] False assms whole show ?thesis
      by (auto simp: verify_bet_float_def Let_def)
  qed
qed

theorem verify_bet_float_effect_witness:
  "money_f_after (verify_bet_float full_stack 0 250) 0 = Inr 750 \<and>
   bets_f_after (verify_bet_float full_stack 0 250) 0 = Inr 250"
proof -
  have h: "money_f full_stack 0 = Some 1000" "bets_f full_stack 0 = Some 0"
    by (simp_all add: full_stack_def)
  have e: "fl (1000 - 250) = 750" "fl (0 + 250) = 250" by code_simp+
  from verify_bet_float_effect [OF h, of 250] e show ?thesis
    by (auto simp: money_f_after_def bets_f_after_def)
qed

text \<open>
  C4. A raise or an all-in reopens the action: the acting player's decision becomes the
  action, every player before the acting player in \<open>order_of_play\<close> whose decision is
  neither \<open>'fold'\<close> nor \<open>'all-in'\<close> becomes undecided, and every other player keeps
  the decision held before (so a later player who has not acted stays undecided).
\<close>

theorem raise_reopens_action:
  assumes act: "action = ''raise'' \<or> action = ''all-in''"
    and money: "player_money g p = Some m"
    and bets: "player_bets g p = Some b"
    and seated: "p \<in> set (order_of_play g)"
    and keys: "set (order_of_play g) \<subseteq> dom (decision_holder g)"
  shows "\<exists>g2 idx.
           player_turn g p action sample = Inr g2 \<and>
           index_of (order_of_play g) p = Inr idx \<and>
           decision_holder g2 p = Some (Some action) \<and>
           (\<forall>q \<in> set (take idx (order_of_play g)).
              decision_holder g2 q =
                (if decision_holder g q = Some (Some ''fold'') \<or>
                    decision_holder g q = Some (Some ''all-in'')
                 then decision_holder g q else Some None)) \<and>
           (\<forall>q. q \<noteq> p \<and> q \<notin> set (take idx (order_of_play g)) \<longrightarrow>
              decision_holder g2 q = decision_holder g q)"
proof -
  from act money bets obtain g0 where g0:
    "(if action = ''raise'' then raise_money g p sample else all_in g p) = Inr g0"
    "order_of_play g0 = order_of_play g" "decision_holder g0 = decision_holder g"
    using all_in_total[OF money bets] raise_money_total[OF money bets, of sample]
    by (cases "action = ''raise''") auto
  define g1 where "g1 = g0\<lparr>decision_holder := (decision_holder g0)(p \<mapsto> Some action)\<rparr>"
  from act g0(1) have pa: "player_action g p action sample = Inr g1"
    by (auto simp: player_action_def g1_def)
  have ord1: "order_of_play g1 = order_of_play g" by (simp add: g1_def g0)
  have dec1: "decision_holder g1 = (decision_holder g)(p \<mapsto> Some action)"
    by (simp add: g1_def g0)
  from index_of_total[OF seated] obtain idx where idx: "index_of (order_of_play g) p = Inr idx"
    by blast
  from index_of_Inr[OF idx] have notin: "p \<notin> set (take idx (order_of_play g))" by simp
  have "set (take idx (order_of_play g)) \<subseteq> dom (decision_holder g1)"
    using keys set_take_subset[of idx "order_of_play g"] by (auto simp: dec1)
  from reopen_total[OF this] obtain d2 where
    d2: "reopen (decision_holder g1) (take idx (order_of_play g)) = Inr d2" by blast
  define g2 where "g2 = g1\<lparr>decision_holder := d2\<rparr>"
  from act idx d2 have "get_players_in_round g1 p action = Inr g2"
    by (auto simp: get_players_in_round_def ord1 g2_def)
  with pa have gp: "player_turn g p action sample = Inr g2"
    by (simp add: player_turn_def)
  have d2q: "d2 q = (if q \<in> set (take idx (order_of_play g)) \<and>
                        decision_holder g1 q \<noteq> Some (Some ''fold'') \<and>
                        decision_holder g1 q \<noteq> Some (Some ''all-in'')
                     then Some None else decision_holder g1 q)" for q
    using reopen_Inr[OF d2] by simp
  have c1: "decision_holder g2 p = Some (Some action)"
    using d2q[of p] notin by (simp add: g2_def dec1)
  have c2: "\<forall>q \<in> set (take idx (order_of_play g)).
              decision_holder g2 q =
                (if decision_holder g q = Some (Some ''fold'') \<or>
                    decision_holder g q = Some (Some ''all-in'')
                 then decision_holder g q else Some None)"
  proof
    fix q assume q: "q \<in> set (take idx (order_of_play g))"
    with notin have "q \<noteq> p" by auto
    then have "decision_holder g1 q = decision_holder g q" by (simp add: dec1)
    with d2q[of q] q show "decision_holder g2 q =
                (if decision_holder g q = Some (Some ''fold'') \<or>
                    decision_holder g q = Some (Some ''all-in'')
                 then decision_holder g q else Some None)"
      by (simp add: g2_def)
  qed
  have c3: "\<forall>q. q \<noteq> p \<and> q \<notin> set (take idx (order_of_play g)) \<longrightarrow>
              decision_holder g2 q = decision_holder g q"
    using d2q by (simp add: g2_def dec1)
  from gp idx c1 c2 c3 show ?thesis by blast
qed

theorem raise_reopens_action_witness:
  "decision_after (player_turn table4 2 ''raise'' 100) 0 = Inr None \<and>
   decision_after (player_turn table4 2 ''raise'' 100) 1 = Inr None \<and>
   decision_after (player_turn table4 2 ''raise'' 100) 2 = Inr (Some ''raise'') \<and>
   decision_after (player_turn table4 2 ''raise'' 100) 3 = Inr None"
proof -
  have h1: "player_money table4 2 = Some 1000" by (simp add: table4_def)
  have h2: "player_bets table4 2 = Some 0" by (simp add: table4_def)
  have h3: "2 \<in> set (order_of_play table4)" by (simp add: table4_def)
  have h4: "set (order_of_play table4) \<subseteq> dom (decision_holder table4)"
    by (simp add: table4_def)
  have ix: "index_of (order_of_play table4) 2 = Inr 2" by (simp add: table4_def)
  have tk: "set (take 2 (order_of_play table4)) = {0, 1}"
    by (auto simp: table4_def numeral_2_eq_2)
  from raise_reopens_action [of "''raise''" table4 2 1000 0 100, OF _ h1 h2 h3 h4]
  obtain g2 idx where g2: "player_turn table4 2 ''raise'' 100 = Inr g2"
    "index_of (order_of_play table4) 2 = Inr idx"
    "decision_holder g2 2 = Some (Some ''raise'')"
    "\<forall>q \<in> set (take idx (order_of_play table4)).
              decision_holder g2 q =
                (if decision_holder table4 q = Some (Some ''fold'') \<or>
                    decision_holder table4 q = Some (Some ''all-in'')
                 then decision_holder table4 q else Some None)"
    "\<forall>q. q \<noteq> 2 \<and> q \<notin> set (take idx (order_of_play table4)) \<longrightarrow>
              decision_holder g2 q = decision_holder table4 q"
    by auto
  from g2(2) ix have idx: "idx = 2" by simp
  from g2(4) idx tk have a: "decision_holder g2 0 = Some None" "decision_holder g2 1 = Some None"
    by (auto simp: table4_def)
  from g2(5) idx tk have b: "decision_holder g2 3 = Some None"
    by (auto simp: table4_def)
  from g2(1,3) a b show ?thesis by (simp add: decision_after_def)
qed

text \<open>
  C5 (as stated, refuted). Player 1 of \<open>short_stack\<close> holds 50 chips, has 20 in and
  faces a bet of 300: the call moves the whole stack, and the stored decision is
  \<open>'check'\<close>, not \<open>'all-in'\<close>.
\<close>

theorem check_short_stack_not_all_in:
  "money_after (player_action short_stack 1 ''check'' 0) 1 = Inr 0 \<and>
   bets_after (player_action short_stack 1 ''check'' 0) 1 = Inr 70 \<and>
   decision_after (player_action short_stack 1 ''check'' 0) 1 = Inr (Some ''check'') \<and>
   decision_after (player_action short_stack 1 ''check'' 0) 1 \<noteq> Inr (Some ''all-in'')"
  by (simp add: short_stack_def player_action_def check_def verify_bet_def
      money_after_def bets_after_def decision_after_def Let_def)

text \<open>
  C5 (amended). A check/call never fails for a seated player with a non-negative stack.
  With a bet that already meets \<open>last_bet\<close> no chips move; otherwise the shortfall is
  paid, clamped to the whole stack when the stack is smaller (the printed word is then
  \<open>'all-in'\<close>). In every case the stored decision is \<open>'check'\<close>.
\<close>

theorem check_call_effect:
  assumes "player_money g p = Some m" and "player_bets g p = Some b" and "0 \<le> m"
  shows "\<exists>g'. player_action g p ''check'' sample = Inr g' \<and>
           decision_holder g' p = Some (Some ''check'') \<and>
           (last_bet g \<le> b \<longrightarrow>
              player_money g' p = Some m \<and> player_bets g' p = Some b) \<and>
           (b < last_bet g \<and> last_bet g - b \<le> m \<longrightarrow>
              player_money g' p = Some (m - (last_bet g - b)) \<and>
              player_bets g' p = Some (last_bet g) \<and>
              map_sum id snd (check g p) = Inr ''checks/calls'') \<and>
           (b < last_bet g \<and> m < last_bet g - b \<longrightarrow>
              player_money g' p = Some 0 \<and> player_bets g' p = Some (b + m) \<and>
              map_sum id snd (check g p) = Inr ''all-in'')"
proof (cases "b \<le> last_bet g")
  case True
  let ?g0 = "g\<lparr>last_bet := (if b > last_bet g then b else last_bet g)\<rparr>"
  have m0: "player_money ?g0 p = Some m" and b0: "player_bets ?g0 p = Some b"
    using assms by simp_all
  show ?thesis
    using True assms(3)
    by (simp add: player_action_def check_def assms(2) Let_def
        verify_bet_total[OF m0 b0] verify_bet_total[OF assms(1,2)])
next
  case False
  then show ?thesis
    using assms by (simp add: player_action_def check_def)
qed

theorem check_call_effect_witness:
  "money_after (player_action table4 2 ''check'' 0) 2 = Inr 980 \<and>
   bets_after (player_action table4 2 ''check'' 0) 2 = Inr 20 \<and>
   decision_after (player_action table4 2 ''check'' 0) 2 = Inr (Some ''check'')"
proof -
  have h1: "player_money table4 2 = Some 1000" by (simp add: table4_def)
  have h2: "player_bets table4 2 = Some 0" by (simp add: table4_def)
  have h3: "last_bet table4 = 20" by (simp add: table4_def)
  from check_call_effect [OF h1 h2, of 0] h3 show ?thesis
    by (auto simp: money_after_def bets_after_def decision_after_def)
qed




text \<open>
  C3. \<open>distribute_pot\<close> moves no chips: with 300, 70 and 0 chips in front of the three
  players of \<open>short_stack\<close> and player 0 the only winner, every stack and every bet is
  what it was before.
\<close>

theorem distribute_pot_moves_nothing:
  "player_bets short_stack 0 = Some 300 \<and>
   money_after (Inr short_stack) 0 = Inr 700 \<and>
   money_after (Inr (distribute_pot short_stack [0])) 0 = Inr 700 \<and>
   bets_after (Inr (distribute_pot short_stack [0])) 0 = Inr 300"
  by (simp add: distribute_pot_def short_stack_def money_after_def bets_after_def)

section \<open>Properties of the hand evaluator\<close>

lemma bind_err_Inr_iff: "bind_err x f = Inr y \<longleftrightarrow> (\<exists>v. x = Inr v \<and> f v = Inr y)"
  by (cases x) auto

lemma straight_window_run:
  assumes "straight_window w"
  shows "\<exists>r. w = [r, r + 1, r + 2, r + 3, r + 4]"
proof -
  from assms have len: "length w = 5" and d: "all_diff_one w"
    by (simp_all add: straight_window_def)
  from len obtain a b c d' e where w: "w = [a, b, c, d', e]"
    by (auto simp: length_Suc_conv eval_nat_numeral)
  from d w have "b = a + 1" "c = a + 2" "d' = a + 3" "e = a + 4" by auto
  with w show ?thesis by simp
qed

lemma set_np_unique: "set (np_unique xs) = set xs"
  by (simp add: np_unique_def)

lemma window_subset: "set (take n (drop k (np_unique xs))) \<subseteq> set xs"
  using set_take_subset[of n "drop k (np_unique xs)"] set_drop_subset[of k "np_unique xs"]
  by (auto simp: set_np_unique)

lemma is_straight_no_error: "\<exists>res. is_straight cards = Inr res"
  by (simp add: is_straight_def Let_def)

lemma is_straight_Some_run:
  assumes "is_straight cards = Inr (Some h)"
  shows "\<exists>r. {r, r + 1, r + 2, r + 3, r + 4} \<subseteq> snd ` set cards"
proof -
  let ?u = "np_unique (map snd cards)"
  from assms have "straight_window (take 5 (drop 2 ?u)) \<or>
      straight_window (take 5 (drop 1 ?u)) \<or> straight_window (take 5 (drop 0 ?u))"
    by (auto simp: is_straight_def Let_def split: if_splits)
  then obtain k where "straight_window (take 5 (drop k ?u))" by blast
  from straight_window_run[OF this] obtain r where
    r: "take 5 (drop k ?u) = [r, r + 1, r + 2, r + 3, r + 4]" by blast
  have "set (take 5 (drop k ?u)) \<subseteq> set (map snd cards)" by (rule window_subset)
  with r have "{r, r + 1, r + 2, r + 3, r + 4} \<subseteq> snd ` set cards" by simp
  then show ?thesis by blast
qed

lemma ranks_card_le: "card (snd ` set cards) \<le> length (cards :: card list)"
  by (meson card_image_le card_length le_trans List.finite_set)

lemma nine_ranks:
  assumes "5 \<le> (r::nat)"
  shows "card {0, 1, 2, 3, r, r + 1, r + 2, r + 3, r + 4} = 9"
  using assms by simp

lemma first_hand_Straight:
  assumes "rank_hand_of_player cards = Inr (Straight, h, r)"
  shows "is_straight cards = Inr (Some h)"
  using assms unfolding rank_hand_of_player_def hands_def
  by (auto simp: bind_err_Inr_iff is_high_card_def split: option.splits)

text \<open>
  C2 (as stated, refuted). Ace, 2, 3, 4, 5 of mixed suits is classified as a high-card
  hand of rank 12, not as a straight.
\<close>

theorem ace_low_run_is_high_card:
  "rank_hand_of_player [(0, 12), (1, 0), (2, 1), (0, 2), (1, 3)] =
     Inr (HighCard, [(0, 12), (1, 3), (0, 2), (2, 1), (1, 0)], 12)"
  by code_simp

text \<open>
  C2 (amended). The straight test accepts only five consecutive rank values. A hand of at
  most seven cards that holds ace, 2, 3, 4, 5 but no 6 (rank 4) fails the straight test,
  and its category is never Straight.
\<close>

theorem ace_low_run_is_no_straight:
  assumes len: "length cards \<le> 7"
    and wheel: "{0, 1, 2, 3, 12} \<subseteq> snd ` set cards"
    and no6: "4 \<notin> snd ` set cards"
  shows "is_straight cards = Inr None \<and>
         (\<forall>h r. rank_hand_of_player cards \<noteq> Inr (Straight, h, r))"
proof -
  have none: "is_straight cards \<noteq> Inr (Some h)" for h
  proof
    assume "is_straight cards = Inr (Some h)"
    from is_straight_Some_run[OF this] obtain r where
      r: "{r, r + 1, r + 2, r + 3, r + 4} \<subseteq> snd ` set cards" by blast
    have "5 \<le> r"
    proof (rule ccontr)
      assume "\<not> 5 \<le> r"
      then have "r = 0 \<or> r = 1 \<or> r = 2 \<or> r = 3 \<or> r = 4" by arith
      then have "4 \<in> {r, r + 1, r + 2, r + 3, r + 4}" by auto
      with r have "4 \<in> snd ` set cards" by blast
      with no6 show False by contradiction
    qed
    from r wheel have "{0, 1, 2, 3, r, r + 1, r + 2, r + 3, r + 4} \<subseteq> snd ` set cards"
      by auto
    then have "card {0, 1, 2, 3, r, r + 1, r + 2, r + 3, r + 4} \<le> card (snd ` set cards)"
      by (intro card_mono) auto
    with nine_ranks[OF \<open>5 \<le> r\<close>] ranks_card_le[of cards] len show False by simp
  qed
  from is_straight_no_error[of cards] obtain res where res: "is_straight cards = Inr res"
    by blast
  with none have a: "is_straight cards = Inr None" by (cases res) auto
  have b: "rank_hand_of_player cards \<noteq> Inr (Straight, h, r)" for h r
    using first_hand_Straight[of cards h r] none by blast
  from a b show ?thesis by blast
qed


theorem ace_low_run_is_no_straight_witness:
  "is_straight [(0, 12), (1, 0), (2, 1), (0, 2), (1, 3), (3, 12), (2, 9)] = Inr None"
  using ace_low_run_is_no_straight [of "[(0, 12), (1, 0), (2, 1), (0, 2), (1, 3), (3, 12), (2, 9)]"]
  by simp

text \<open>
  C7. Five to nine of hearts form a straight flush whose highest card is the nine; with the
  ace of spades among the seven cards \<open>is_royal_flush\<close> succeeds, because it reads the
  highest rank of the whole hand, and the hand is ranked 117 as a royal flush.
\<close>

theorem royal_flush_from_offsuit_ace:
  "is_royal_flush [(2, 3), (2, 4), (2, 5), (2, 6), (2, 7), (3, 12), (0, 0)] =
     Inr (Some [(2, 7), (2, 6), (2, 5), (2, 4), (2, 3)]) \<and>
   rank_hand_of_player [(2, 3), (2, 4), (2, 5), (2, 6), (2, 7), (3, 12), (0, 0)] =
     Inr (RoyalFlush, [(2, 7), (2, 6), (2, 5), (2, 4), (2, 3)], 117)"
  by code_simp

text \<open>
  C8. Two three-of-a-kinds (sevens and jacks) are classified as three of a kind built on
  the lower triple; a triple with two pairs gives a full house with the lower pair.
\<close>

theorem full_house_missed:
  "rank_hand_of_player [(0, 5), (1, 5), (2, 5), (0, 9), (1, 9), (2, 9), (3, 2)] =
     Inr (ThreeOfAKind, [(0, 5), (1, 5), (2, 5), (0, 9), (1, 9)], 44) \<and>
   rank_hand_of_player [(0, 5), (1, 5), (2, 5), (0, 9), (1, 9), (2, 3), (3, 3)] =
     Inr (FullHouse, [(0, 5), (1, 5), (2, 5), (2, 3), (3, 3)], 83)"
  by code_simp

subsection \<open>Lists, sorting and counting\<close>

lemma set_sort_by_rank_desc [simp]: "set (sort_by_rank_desc cs) = set cs"
  by (simp add: sort_by_rank_desc_def)

lemma length_sort_by_rank_desc [simp]: "length (sort_by_rank_desc cs) = length cs"
  by (simp add: sort_by_rank_desc_def)

lemma sort_by_rank_desc_Nil_iff [simp]: "sort_by_rank_desc cs = [] \<longleftrightarrow> cs = []"
  using length_sort_by_rank_desc[of cs] by (metis length_0_conv)

lemma count_list_length_filter: "count_list xs v = length (filter (\<lambda>x. x = v) xs)"
  by (induction xs) auto











subsection \<open>Cards of a valid hand\<close>











subsection \<open>Flush and straight tests\<close>

lemma sort_key_Nil_iff [simp]: "sort_key f xs = [] \<longleftrightarrow> xs = []"
  by (metis length_sort length_0_conv)












subsection \<open>Tests that count ranks\<close>



lemma rest_filter_simp [simp]:
  "filter (\<lambda>c. c \<in> set cs \<longrightarrow> \<not> P c) cs = filter (\<lambda>c. \<not> P c) cs"
  by (rule filter_cong) auto



















subsection \<open>Five-card hands against the reference\<close>

























end
